theory Spec2Isabelle
  imports Main "HOL-Library.AList"
begin

section \<open>Python values, exceptions and the string helpers of \<^verbatim>\<open>waltz/resources.py\<close>\<close>

text \<open>
  The module moves JSON-shaped data between the remote API, in-memory objects and files.
  A Python value is one of the JSON shapes, or a reference to the \<^verbatim>\<open>Course\<close> object
  (which \<^verbatim>\<open>from_disk\<close> stores as the attribute \<^verbatim>\<open>course\<close>). A \<^verbatim>\<open>dict\<close> keeps its
  insertion order, so it is an association list; numbers are carried through opaquely and
  are integers here. Strings are ASCII text, one \<^typ>\<open>char\<close> per character.
\<close>

record course =
  root_directory :: string
  course_name :: string

datatype pyval =
    PNone
  | PBool bool
  | PInt int
  | PStr string
  | PList "pyval list"
  | PDict "(string \<times> pyval) list"
  | PCourse course

text \<open>
  Every \<^verbatim>\<open>raise\<close> of the module and every exception of the interpreter that its
  statements can throw is a constructor; \<open>WaltzNoResourceFound\<close> is the subclass of
  \<open>WaltzException\<close> declared at the top of the file.
\<close>

datatype error =
    WaltzException string
  | WaltzNoResourceFound string
  | KeyError string
  | IndexError
  | TypeError
  | ValueError string
  | NameError string
  | AttributeError string
  | UnicodeDecodeError
  | FileNotFoundError string
  | NotImplementedError string

definition bindE :: "error + 'a \<Rightarrow> ('a \<Rightarrow> error + 'b) \<Rightarrow> error + 'b" where
  "bindE m f = (case m of Inl e \<Rightarrow> Inl e | Inr x \<Rightarrow> f x)"

text \<open>\<^verbatim>\<open>str.lower\<close> on ASCII text.\<close>

definition lower_char :: "char \<Rightarrow> char" where
  "lower_char c =
     (let n = (of_char c :: nat) in if 65 \<le> n \<and> n \<le> 90 then char_of (n + 32) else c)"

definition lower :: "string \<Rightarrow> string" where
  "lower s = map lower_char s"

text \<open>
  \<^verbatim>\<open>raw.split("/", 1)\<close>: the text before the first slash and the text after it, or the
  whole string alone when it holds no slash.
\<close>

fun split1 :: "string \<Rightarrow> string list" where
  "split1 s =
     (if CHR ''/'' \<in> set s
      then [takeWhile (\<lambda>c. c \<noteq> CHR ''/'') s, tl (dropWhile (\<lambda>c. c \<noteq> CHR ''/'') s)]
      else [s])"

text \<open>\<^verbatim>\<open>sep.join(parts)\<close>.\<close>

fun join :: "string \<Rightarrow> string list \<Rightarrow> string" where
  "join sep [] = []"
| "join sep [x] = x"
| "join sep (x # y # ys) = x @ sep @ join sep (y # ys)"

text \<open>\<^verbatim>\<open>repr\<close> of a \<^verbatim>\<open>str\<close>, as \<^verbatim>\<open>{!r}\<close> and \<^verbatim>\<open>repr(self.command)\<close> print it.\<close>

definition hex_digit :: "nat \<Rightarrow> char" where
  "hex_digit n = ''0123456789abcdef'' ! (n mod 16)"

definition repr_char :: "char \<Rightarrow> char \<Rightarrow> string" where
  "repr_char q c =
     (let n = (of_char c :: nat) in
      if c = CHR 0x5C then [CHR 0x5C, CHR 0x5C]
      else if c = q then [CHR 0x5C, q]
      else if c = CHR 0x0A then [CHR 0x5C, CHR ''n'']
      else if c = CHR 0x0D then [CHR 0x5C, CHR ''r'']
      else if c = CHR 0x09 then [CHR 0x5C, CHR ''t'']
      else if n < 32 \<or> (127 \<le> n \<and> n \<le> 160) \<or> n = 173
        then [CHR 0x5C, CHR ''x'', hex_digit (n div 16), hex_digit n]
      else [c])"

definition py_repr :: "string \<Rightarrow> string" where
  "py_repr s =
     (let q = (if CHR 0x27 \<in> set s \<and> CHR 0x22 \<notin> set s then CHR 0x22 else CHR 0x27)
      in q # concat (map (repr_char q) s) @ [q])"

text \<open>
  \<^verbatim>\<open>os.path.join\<close> on POSIX: an absolute component discards what came before it, and a
  slash is put between two components unless the left one is empty or ends with one.
\<close>

definition path_join2 :: "string \<Rightarrow> string \<Rightarrow> string" where
  "path_join2 a b =
     (if b \<noteq> [] \<and> hd b = CHR ''/'' then b
      else if a = [] \<or> last a = CHR ''/'' then a @ b
      else a @ ''/'' @ b)"

definition path_join :: "string \<Rightarrow> string list \<Rightarrow> string" where
  "path_join a ps = foldl path_join2 a ps"

section \<open>Operations of the interpreter on values\<close>

text \<open>Truth value of an object, as \<^verbatim>\<open>not potentials\<close> tests it.\<close>

fun truthy :: "pyval \<Rightarrow> bool" where
  "truthy PNone = False"
| "truthy (PBool b) = b"
| "truthy (PInt i) = (i \<noteq> 0)"
| "truthy (PStr s) = (s \<noteq> [])"
| "truthy (PList xs) = (xs \<noteq> [])"
| "truthy (PDict kvs) = (kvs \<noteq> [])"
| "truthy (PCourse c) = True"

text \<open>\<^verbatim>\<open>len(x)\<close>; an object without a length raises \<^verbatim>\<open>TypeError\<close>.\<close>

fun py_len :: "pyval \<Rightarrow> error + nat" where
  "py_len (PStr s) = Inr (length s)"
| "py_len (PList xs) = Inr (length xs)"
| "py_len (PDict kvs) = Inr (length kvs)"
| "py_len _ = Inl TypeError"

text \<open>\<^verbatim>\<open>s.startswith(p)\<close>, and the substring test that \<^verbatim>\<open>in\<close> is on a \<^verbatim>\<open>str\<close>.\<close>

fun startswith :: "string \<Rightarrow> string \<Rightarrow> bool" where
  "startswith s [] = True"
| "startswith [] (p # ps) = False"
| "startswith (c # cs) (p # ps) = (c = p \<and> startswith cs ps)"

fun has_substring :: "string \<Rightarrow> string \<Rightarrow> bool" where
  "has_substring [] sub = (sub = [])"
| "has_substring (c # cs) sub = (startswith (c # cs) sub \<or> has_substring cs sub)"

text \<open>
  \<^verbatim>\<open>key in x\<close> for a string key: membership in a list, key of a dict, substring of a
  string; anything else is not iterable.
\<close>

fun py_in :: "string \<Rightarrow> pyval \<Rightarrow> error + bool" where
  "py_in k (PList xs) = Inr (PStr k \<in> set xs)"
| "py_in k (PDict kvs) = Inr (k \<in> set (map fst kvs))"
| "py_in k (PStr s) = Inr (has_substring s k)"
| "py_in k _ = Inl TypeError"

text \<open>Iterating an object: the items of a list, the keys of a dict, the characters of a string.\<close>

fun py_iter :: "pyval \<Rightarrow> error + pyval list" where
  "py_iter (PList xs) = Inr xs"
| "py_iter (PDict kvs) = Inr (map (\<lambda>kv. PStr (fst kv)) kvs)"
| "py_iter (PStr s) = Inr (map (\<lambda>c. PStr [c]) s)"
| "py_iter _ = Inl TypeError"

text \<open>
  \<^verbatim>\<open>x[key]\<close> for a string key: a dict looks the key up and raises \<^verbatim>\<open>KeyError\<close> when it is
  missing; every other object raises \<^verbatim>\<open>TypeError\<close>.
\<close>

fun py_getitem :: "pyval \<Rightarrow> string \<Rightarrow> error + pyval" where
  "py_getitem (PDict kvs) k = (case map_of kvs k of None \<Rightarrow> Inl (KeyError k) | Some v \<Rightarrow> Inr v)"
| "py_getitem _ k = Inl TypeError"

text \<open>\<^verbatim>\<open>x[0]\<close>. A dict here has string keys only, so the key \<^verbatim>\<open>0\<close> is never in it.\<close>

fun py_getitem0 :: "pyval \<Rightarrow> error + pyval" where
  "py_getitem0 (PList []) = Inl IndexError"
| "py_getitem0 (PList (x # xs)) = Inr x"
| "py_getitem0 (PStr []) = Inl IndexError"
| "py_getitem0 (PStr (c # cs)) = Inr (PStr [c])"
| "py_getitem0 (PDict kvs) = Inl (KeyError ''0'')"
| "py_getitem0 _ = Inl TypeError"

text \<open>\<^verbatim>\<open>sep.join(items)\<close> on a list of objects: an item that is not a \<^verbatim>\<open>str\<close> raises.\<close>

fun as_strs :: "pyval list \<Rightarrow> error + string list" where
  "as_strs [] = Inr []"
| "as_strs (PStr s # xs) = bindE (as_strs xs) (\<lambda>ss. Inr (s # ss))"
| "as_strs (_ # xs) = Inl TypeError"

definition join_vals :: "string \<Rightarrow> pyval list \<Rightarrow> error + string" where
  "join_vals sep xs = bindE (as_strs xs) (\<lambda>ss. Inr (join sep ss))"

text \<open>Decimal digits of a number, and \<^verbatim>\<open>repr\<close> of a value, which the error messages embed.\<close>

fun digits :: "nat \<Rightarrow> string" where
  "digits n = (if n < 10 then [hex_digit n] else digits (n div 10) @ [hex_digit (n mod 10)])"

definition repr_int :: "int \<Rightarrow> string" where
  "repr_int i = (if i < 0 then CHR ''-'' # digits (nat (- i)) else digits (nat i))"

fun repr_val :: "pyval \<Rightarrow> string" where
  "repr_val PNone = ''None''"
| "repr_val (PBool b) = (if b then ''True'' else ''False'')"
| "repr_val (PInt i) = repr_int i"
| "repr_val (PStr s) = py_repr s"
| "repr_val (PList xs) = ''['' @ join '', '' (map repr_val xs) @ '']''"
| "repr_val (PDict kvs) =
     ''{'' @ join '', '' (map (\<lambda>kv. py_repr (fst kv) @ '': '' @ repr_val (snd kv)) kvs) @ ''}''"
| "repr_val (PCourse c) = ''<waltz.resources.Course object>''"

text \<open>\<^verbatim>\<open>"{}".format(name)\<close> for the identifier's name, which is a string or \<^verbatim>\<open>None\<close>.\<close>

definition name_val :: "string option \<Rightarrow> pyval" where
  "name_val name = (case name of None \<Rightarrow> PNone | Some s \<Rightarrow> PStr s)"

definition format_name :: "string option \<Rightarrow> string" where
  "format_name name = (case name of None \<Rightarrow> ''None'' | Some s \<Rightarrow> s)"

section \<open>Resource variants and the registry\<close>

text \<open>
  The class attributes that the identifier resolver reads from a \<^verbatim>\<open>Resource\<close> subclass.
\<close>

record resource_type =
  category_names :: "string list"
  canvas_name :: string
  canonical_category :: string
  canvas_title_field :: string
  canvas_id_field :: string
  extension :: string

definition Page :: resource_type where
  "Page = \<lparr> category_names = [''page'', ''pages''], canvas_name = ''pages'',
            canonical_category = ''pages'', canvas_title_field = ''title'',
            canvas_id_field = ''url'', extension = ''.md'' \<rparr>"


definition Assignment :: resource_type where
  "Assignment = \<lparr> category_names = [''assignments'', ''assignment'', ''a''],
                  canvas_name = ''assignments'', canonical_category = ''assignments'',
                  canvas_title_field = ''name'', canvas_id_field = ''id'',
                  extension = ''.yaml'' \<rparr>"

text \<open>
  \<^verbatim>\<open>Quiz\<close> comes from \<^verbatim>\<open>waltz.quizzes\<close> (\<^verbatim>\<open>from waltz.quizzes import *\<close>), which is not part
  of \<^verbatim>\<open>resources.py\<close>; the registry and everything built on it take its descriptor as the
  parameter \<open>Quiz\<close>.

  \<^verbatim>\<open>ALL_RESOURCES = [Quiz, Page, Assignment]\<close>, and the two nested loops that fill the
  dictionary \<^verbatim>\<open>RESOURCE_CATEGORIES\<close>.
\<close>

definition ALL_RESOURCES :: "resource_type \<Rightarrow> resource_type list" where
  "ALL_RESOURCES Quiz = [Quiz, Page, Assignment]"

definition register :: "resource_type \<Rightarrow> (string \<times> resource_type) list \<Rightarrow> (string \<times> resource_type) list" where
  "register ResourceType d = fold (\<lambda>category. AList.update category ResourceType) (category_names ResourceType) d"

definition RESOURCE_CATEGORIES :: "resource_type \<Rightarrow> (string \<times> resource_type) list" where
  "RESOURCE_CATEGORIES Quiz = fold register (ALL_RESOURCES Quiz) []"

text \<open>
  \<^verbatim>\<open>ResourceID._parse_type\<close>. Unpacking a split without a slash raises \<^verbatim>\<open>ValueError\<close>,
  and \<^verbatim>\<open>action[0]\<close> on an empty action raises \<^verbatim>\<open>IndexError\<close>. The result is the tuple
  (category, command, name, resource type); the name is \<^verbatim>\<open>None\<close> for the wildcard.
\<close>

definition parse_type :: "resource_type \<Rightarrow> string \<Rightarrow> error + (string \<times> string \<times> string option \<times> resource_type)" where
  "parse_type Quiz raw =
     (case split1 raw of
        [category0, action] \<Rightarrow>
          (let category = lower category0 in
           case map_of (RESOURCE_CATEGORIES Quiz) category of
             None \<Rightarrow> Inl (WaltzException (''Category '' @ category @ '' not found (full Resource ID: ''
                                           @ py_repr raw @ '')''))
           | Some resource_type \<Rightarrow>
               if action = ''*'' then Inr (category, ''*'', None, resource_type)
               else (case action of
                       [] \<Rightarrow> Inl IndexError
                     | c # name \<Rightarrow> Inr (category, [c], Some name, resource_type)))
      | _ \<Rightarrow> Inl (ValueError ''not enough values to unpack (expected 2, got 1)''))"

section \<open>The identifier resolver (\<^verbatim>\<open>ResourceID\<close>) and its lookups\<close>

text \<open>
  What the module imports from outside: the remote client \<^verbatim>\<open>get\<close> of
  \<^verbatim>\<open>waltz.canvas_tools\<close> (endpoint, \<^verbatim>\<open>params\<close>, course name, \<^verbatim>\<open>all\<close>), \<^verbatim>\<open>indent4\<close> and
  \<^verbatim>\<open>make_safe_filename\<close> of \<^verbatim>\<open>waltz.utilities\<close>, \<^verbatim>\<open>glob\<close> with \<^verbatim>\<open>recursive=True\<close> on the
  file system as it stands, and \<^verbatim>\<open>yaml.load\<close> of an opened bank file (\<open>load_yaml\<close>, by
  path). They are parameters of the model; a call that raises returns \<open>Inl\<close>. The \<^verbatim>\<open>print\<close> calls of the module are not modelled.
\<close>

record externals =
  canvas_get :: "string \<Rightarrow> (string \<times> pyval) list \<Rightarrow> string \<Rightarrow> bool \<Rightarrow> error + pyval"
  indent4 :: "string \<Rightarrow> string"
  make_safe_filename :: "pyval \<Rightarrow> error + string"
  glob :: "string \<Rightarrow> string list"
  load_yaml :: "string \<Rightarrow> error + pyval"

text \<open>
  \<^verbatim>\<open>Resource.identify_title\<close>, \<^verbatim>\<open>identify_id\<close> and \<^verbatim>\<open>get_names_from_json\<close> are class
  methods: they read \<^verbatim>\<open>cls.canvas_title_field\<close> and \<^verbatim>\<open>cls.canvas_id_field\<close> of the class they
  are called on, so the model takes that field name. Called on the base class
  \<^verbatim>\<open>Resource\<close> itself the fields are \<^verbatim>\<open>'title'\<close> and \<^verbatim>\<open>'id'\<close>.
\<close>

definition Resource_canvas_title_field :: string where
  "Resource_canvas_title_field = ''title''"

definition Resource_canvas_id_field :: string where
  "Resource_canvas_id_field = ''id''"

definition identify_title :: "string \<Rightarrow> pyval \<Rightarrow> error + pyval" where
  "identify_title cls_canvas_title_field json_data = py_getitem json_data cls_canvas_title_field"

definition identify_id :: "string \<Rightarrow> pyval \<Rightarrow> error + pyval" where
  "identify_id cls_canvas_id_field json_data = py_getitem json_data cls_canvas_id_field"

fun identify_titles :: "string \<Rightarrow> pyval list \<Rightarrow> error + pyval list" where
  "identify_titles f [] = Inr []"
| "identify_titles f (r # rs) =
     bindE (identify_title f r) (\<lambda>t. bindE (identify_titles f rs) (\<lambda>ts. Inr (t # ts)))"

definition get_names_from_json :: "string \<Rightarrow> pyval \<Rightarrow> error + pyval list" where
  "get_names_from_json cls_canvas_title_field json_data =
     bindE (py_iter json_data) (identify_titles cls_canvas_title_field)"

text \<open>\<^verbatim>\<open>Resource.find_resource_on_canvas\<close> and \<^verbatim>\<open>Resource.get_resource_on_canvas\<close>.\<close>

definition find_resource_on_canvas :: "externals \<Rightarrow> resource_type \<Rightarrow> course \<Rightarrow> string option \<Rightarrow> error + pyval" where
  "find_resource_on_canvas ext cls crs resource_name =
     bindE (canvas_get ext (canvas_name cls) [(''search_term'', name_val resource_name)]
              (course_name crs) True)
       (\<lambda>results. bindE (py_in ''errors'' results)
          (\<lambda>bad. if bad then Inl (WaltzException (''Errors in Canvas data: '' @ repr_val results))
                 else Inr results))"

definition get_resource_on_canvas :: "externals \<Rightarrow> resource_type \<Rightarrow> course \<Rightarrow> string option \<Rightarrow> error + pyval" where
  "get_resource_on_canvas ext cls crs resource_name =
     bindE (canvas_get ext (canvas_name cls @ ''/'' @ format_name resource_name) []
              (course_name crs) False)
       (\<lambda>data. bindE (py_in ''errors'' data)
          (\<lambda>bad. if bad then Inl (WaltzNoResourceFound (''Errors in Canvas data: '' @ repr_val data))
                 else Inr data))"

text \<open>
  \<^verbatim>\<open>Resource.find_resource_on_disk\<close>. The last branch builds its message from
  \<^verbatim>\<open>self.canonical_category\<close>, but the method is a class method whose first parameter is
  \<^verbatim>\<open>cls\<close>: evaluating \<^verbatim>\<open>self\<close> raises \<^verbatim>\<open>NameError\<close> before the \<^verbatim>\<open>ValueError\<close> is built.
\<close>

definition find_resource_on_disk :: "externals \<Rightarrow> resource_type \<Rightarrow> string \<Rightarrow> string \<Rightarrow> error + (bool \<times> string)" where
  "find_resource_on_disk ext cls root filename =
     (let search_path = path_join root [canonical_category cls, ''**'', filename];
          potentials = glob ext search_path
      in if potentials = [] then Inr (True, path_join root [canonical_category cls, filename])
         else if length potentials = 1 then Inr (False, hd potentials)
         else Inl (NameError ''name 'self' is not defined''))"

text \<open>\<^verbatim>\<open>Resource.identify_filename\<close>.\<close>

definition identify_filename :: "resource_type \<Rightarrow> string \<Rightarrow> string" where
  "identify_filename cls filename = path_join (canonical_category cls) [filename]"

text \<open>
  The three lookups of \<^verbatim>\<open>ResourceID\<close>. Each reads \<^verbatim>\<open>self.course\<close>, \<^verbatim>\<open>self.resource_type\<close>,
  \<^verbatim>\<open>self.raw\<close> and \<^verbatim>\<open>self.name\<close>, which \<^verbatim>\<open>__init__\<close> has set before it calls them.
  \<^verbatim>\<open>_new_canvas_resource\<close> lists the matches through \<^verbatim>\<open>Resource.get_names_from_json\<close>, the
  base class; \<^verbatim>\<open>_find_canvas_resource\<close> through \<^verbatim>\<open>self.resource_type.get_names_from_json\<close>.
\<close>

definition new_canvas_resource :: "externals \<Rightarrow> course \<Rightarrow> resource_type \<Rightarrow> string option \<Rightarrow> error + pyval" where
  "new_canvas_resource ext crs rt name =
     bindE (find_resource_on_canvas ext rt crs name)
       (\<lambda>potentials.
          if \<not> truthy potentials then Inr (PBool True)
          else bindE (get_names_from_json Resource_canvas_title_field potentials)
            (\<lambda>names. bindE (join_vals [CHR 0x0A] names)
               (\<lambda>listing. Inl (WaltzException (''Resource '' @ format_name name
                     @ '' already exists:'' @ [CHR 0x0A] @ indent4 ext listing)))))"

definition find_canvas_resource :: "externals \<Rightarrow> course \<Rightarrow> resource_type \<Rightarrow> string \<Rightarrow> string option \<Rightarrow> error + pyval" where
  "find_canvas_resource ext crs rt raw name =
     bindE (find_resource_on_canvas ext rt crs name)
       (\<lambda>potentials.
          if \<not> truthy potentials
          then Inl (WaltzNoResourceFound (''No '' @ canvas_name rt @ '' resource found for: '' @ raw))
          else bindE (py_len potentials)
            (\<lambda>n. if n > 1
               then bindE (get_names_from_json (canvas_title_field rt) potentials)
                 (\<lambda>names. bindE (join_vals [CHR 0x0A] names)
                    (\<lambda>listing. Inl (WaltzNoResourceFound (''Ambiguous '' @ canvas_name rt
                          @ '' resource ID: '' @ raw @ [CHR 0x0A] @ ''Matches:'' @ [CHR 0x0A]
                          @ indent4 ext listing))))
               else py_getitem0 potentials))"

definition get_canvas_resource :: "externals \<Rightarrow> course \<Rightarrow> resource_type \<Rightarrow> string option \<Rightarrow> error + pyval" where
  "get_canvas_resource ext crs rt name = get_resource_on_canvas ext rt crs name"

text \<open>
  \<^verbatim>\<open>_parse_canvas_data\<close> gives the canonical title and the remote id; \<^verbatim>\<open>canvas_data is True\<close>
  holds for the value \<^verbatim>\<open>True\<close> alone.
\<close>

definition parse_canvas_data :: "resource_type \<Rightarrow> string option \<Rightarrow> pyval \<Rightarrow> error + (pyval \<times> pyval)" where
  "parse_canvas_data rt name canvas_data =
     (if canvas_data = PBool True then Inr (name_val name, PNone)
      else bindE (identify_title (canvas_title_field rt) canvas_data)
        (\<lambda>title. bindE (identify_id (canvas_id_field rt) canvas_data)
           (\<lambda>ident. Inr (title, ident))))"

text \<open>
  \<^verbatim>\<open>_get_canvas_data\<close>: the remote data chosen by the command, then its title and id.
  The result is (\<^verbatim>\<open>canvas_data\<close>, \<^verbatim>\<open>canvas_title\<close>, \<^verbatim>\<open>canvas_id\<close>).
\<close>

definition get_canvas_data :: "externals \<Rightarrow> course \<Rightarrow> resource_type \<Rightarrow> string \<Rightarrow> string \<Rightarrow> string option \<Rightarrow> error + (pyval \<times> pyval \<times> pyval)" where
  "get_canvas_data ext crs rt raw command name =
     bindE (if startswith command ''+'' then new_canvas_resource ext crs rt name
            else if startswith command ''?'' then find_canvas_resource ext crs rt raw name
            else if startswith command '':'' then get_canvas_resource ext crs rt name
            else Inl (WaltzException (''Unknown command: '' @ py_repr command)))
       (\<lambda>canvas_data. bindE (parse_canvas_data rt name canvas_data)
          (\<lambda>(title, ident). Inr (canvas_data, title, ident)))"

text \<open>\<^verbatim>\<open>_get_disk_path\<close>: (\<^verbatim>\<open>filename\<close>, \<^verbatim>\<open>is_new\<close>, \<^verbatim>\<open>path\<close>).\<close>

definition get_disk_path :: "externals \<Rightarrow> course \<Rightarrow> resource_type \<Rightarrow> pyval \<Rightarrow> error + (string \<times> bool \<times> string)" where
  "get_disk_path ext crs rt canvas_title =
     bindE (make_safe_filename ext canvas_title)
       (\<lambda>safe. let filename = safe @ extension rt in
          bindE (find_resource_on_disk ext rt (root_directory crs) filename)
            (\<lambda>(is_new, path). Inr (filename, is_new, path)))"

text \<open>The object that \<^verbatim>\<open>ResourceID.__init__\<close> leaves behind when no step raises.\<close>

record resource_id =
  rid_course :: course
  rid_raw :: string
  rid_category :: string
  rid_command :: string
  rid_name :: "string option"
  rid_resource_type :: resource_type
  rid_canvas_data :: pyval
  rid_canvas_title :: pyval
  rid_canvas_id :: pyval
  rid_filename :: string
  rid_is_new :: bool
  rid_path :: string

definition ResourceID :: "resource_type \<Rightarrow> externals \<Rightarrow> course \<Rightarrow> string \<Rightarrow> error + resource_id" where
  "ResourceID Quiz ext crs raw =
     bindE (parse_type Quiz raw)
       (\<lambda>(category, command, name, rt).
          bindE (get_canvas_data ext crs rt raw command name)
            (\<lambda>(canvas_data, title, ident).
               bindE (get_disk_path ext crs rt title)
                 (\<lambda>(filename, is_new, path).
                    Inr \<lparr> rid_course = crs, rid_raw = raw, rid_category = category,
                          rid_command = command, rid_name = name, rid_resource_type = rt,
                          rid_canvas_data = canvas_data, rid_canvas_title = title,
                          rid_canvas_id = ident, rid_filename = filename,
                          rid_is_new = is_new, rid_path = path \<rparr>)))"

section \<open>Resource objects and the Assignment conversions\<close>

text \<open>
  An instance is its attribute dictionary. An assignment \<^verbatim>\<open>self.name = value\<close> to a name
  that the source writes out stores the value there.
\<close>

type_synonym resource = "(string \<times> pyval) list"

definition store_attr :: "resource \<Rightarrow> string \<Rightarrow> pyval \<Rightarrow> resource" where
  "store_attr self key v = AList.update key v self"

text \<open>
  \<^verbatim>\<open>setattr(self, key, value)\<close> with a key that the caller chose. Three names are
  descriptors of the object and not entries of its dictionary: \<^verbatim>\<open>__class__\<close> accepts a
  class only, and a value is never one; \<^verbatim>\<open>__weakref__\<close> is not writable; \<^verbatim>\<open>__dict__\<close> accepts
  a dict only and makes that dict the attribute dictionary, which drops the attributes
  set before. Every other name is stored.
\<close>

definition setattr :: "resource \<Rightarrow> string \<Rightarrow> pyval \<Rightarrow> error + resource" where
  "setattr self key v =
     (if key = ''__class__'' then Inl TypeError
      else if key = ''__weakref__'' then Inl (AttributeError ''__weakref__'')
      else if key = ''__dict__'' then (case v of PDict d \<Rightarrow> Inr d | _ \<Rightarrow> Inl TypeError)
      else Inr (store_attr self key v))"

text \<open>
  \<^verbatim>\<open>Resource.__init__(self, **kwargs)\<close>. A keyword named \<^verbatim>\<open>self\<close> collides with the first
  parameter and the call raises \<^verbatim>\<open>TypeError\<close> before the body runs. The body walks a
  snapshot of the keyword items, sets each as an attribute and deletes it from \<^verbatim>\<open>kwargs\<close>,
  then stores what is left of \<^verbatim>\<open>kwargs\<close> as \<^verbatim>\<open>unmatched_parameters\<close>. \<^verbatim>\<open>Page\<close>, \<^verbatim>\<open>Outcome\<close> and
  \<^verbatim>\<open>Assignment\<close> inherit this constructor.
\<close>

fun init_loop :: "(string \<times> pyval) list \<Rightarrow> resource \<Rightarrow> (string \<times> pyval) list \<Rightarrow> error + (resource \<times> (string \<times> pyval) list)" where
  "init_loop [] self kwargs = Inr (self, kwargs)"
| "init_loop ((key, v) # items) self kwargs =
     bindE (setattr self key v) (\<lambda>self'. init_loop items self' (AList.delete key kwargs))"

definition Resource_init :: "(string \<times> pyval) list \<Rightarrow> error + resource" where
  "Resource_init kwargs =
     (if ''self'' \<in> set (map fst kwargs) then Inl TypeError
      else bindE (init_loop kwargs [] kwargs)
        (\<lambda>st. Inr (store_attr (fst st) ''unmatched_parameters'' (PDict (snd st)))))"

text \<open>
  The names that \<^verbatim>\<open>Resource.__init__\<close> stores as plain attributes: all but the parameter
  name and the three descriptors.
\<close>

definition plain_name :: "string \<Rightarrow> bool" where
  "plain_name key = (key \<notin> set [''self'', ''__class__'', ''__weakref__'', ''__dict__''])"

text \<open>
  \<^verbatim>\<open>HtmlContent.__init__(self, text, template=None)\<close> overrides the constructor: called
  with keyword data it accepts \<^verbatim>\<open>text\<close> and \<^verbatim>\<open>template\<close> only, needs \<^verbatim>\<open>text\<close>, and sets the two
  attributes and nothing else.
\<close>

definition HtmlContent_init :: "(string \<times> pyval) list \<Rightarrow> error + resource" where
  "HtmlContent_init kwargs =
     (if \<not> list_all (\<lambda>key. key = ''text'' \<or> key = ''template'') (map fst kwargs) then Inl TypeError
      else case map_of kwargs ''text'' of
             None \<Rightarrow> Inl TypeError
           | Some text \<Rightarrow>
               Inr (store_attr
                      (store_attr [] ''template''
                         (case map_of kwargs ''template'' of None \<Rightarrow> PNone | Some template \<Rightarrow> template))
                      ''text'' text))"

text \<open>
  \<^verbatim>\<open>self.key\<close> and \<^verbatim>\<open>hasattr(self, key)\<close> for the attributes that the conversions read;
  none of them is a class attribute, so the instance dictionary decides.
\<close>

definition getattr :: "resource \<Rightarrow> string \<Rightarrow> error + pyval" where
  "getattr self key = (case map_of self key of None \<Rightarrow> Inl (AttributeError key) | Some v \<Rightarrow> Inr v)"

definition hasattr :: "resource \<Rightarrow> string \<Rightarrow> bool" where
  "hasattr self key = (map_of self key \<noteq> None)"

text \<open>
  \<^verbatim>\<open>cls(**data, course=course)\<close>: the keywords are the items of the mapping followed by
  \<^verbatim>\<open>course\<close>; a mapping that has the key \<^verbatim>\<open>course\<close> itself, or that is no mapping, raises
  \<^verbatim>\<open>TypeError\<close>.
\<close>

definition construct :: "pyval \<Rightarrow> course \<Rightarrow> error + resource" where
  "construct data crs =
     (case data of
        PDict kvs \<Rightarrow>
          if ''course'' \<in> set (map fst kvs) then Inl TypeError
          else Resource_init (kvs @ [(''course'', PCourse crs)])
      | _ \<Rightarrow> Inl TypeError)"

text \<open>
  The converters imported from \<^verbatim>\<open>waltz.html_markdown_utilities\<close> and \<^verbatim>\<open>waltz.utilities\<close>;
  parameters of the model.
\<close>

record converters =
  h2m :: "pyval \<Rightarrow> error + pyval"
  m2h :: "pyval \<Rightarrow> error + pyval"
  to_friendly_date :: "pyval \<Rightarrow> error + pyval"
  from_friendly_date :: "pyval \<Rightarrow> error + pyval"

text \<open>
  \<^verbatim>\<open>Assignment.to_disk\<close>. The attribute reads and converter calls happen in the order of
  the source; the nested \<^verbatim>\<open>CommentedMap\<close> is the dict built from them.
\<close>

definition Assignment_to_disk :: "converters \<Rightarrow> resource \<Rightarrow> error + pyval" where
  "Assignment_to_disk cv self =
     bindE (getattr self ''name'') (\<lambda>name.
     bindE (getattr self ''html_url'') (\<lambda>html_url.
     bindE (getattr self ''published'') (\<lambda>published.
     bindE (getattr self ''points_possible'') (\<lambda>points_possible.
     bindE (getattr self ''grading_type'') (\<lambda>grading_type.
     bindE (if hasattr self ''allowed_extensions''
            then bindE (getattr self ''allowed_extensions'') (\<lambda>e. Inr [(''extensions'', e)])
            else Inr []) (\<lambda>extensions.
     bindE (getattr self ''submission_types'') (\<lambda>submission_types.
     bindE (bindE (getattr self ''due_at'') (to_friendly_date cv)) (\<lambda>due_at.
     bindE (bindE (getattr self ''unlock_at'') (to_friendly_date cv)) (\<lambda>unlock_at.
     bindE (bindE (getattr self ''lock_at'') (to_friendly_date cv)) (\<lambda>lock_at.
     bindE (getattr self ''anonymize_students'') (\<lambda>anonymize_students.
     bindE (getattr self ''anonymous_grading'') (\<lambda>anonymous_grading.
     bindE (bindE (getattr self ''description'') (h2m cv)) (\<lambda>description.
       Inr (PDict
         [(''name'', name),
          (''url'', html_url),
          (''settings'', PDict
             [(''published'', published),
              (''points_possible'', points_possible),
              (''grading_type'', grading_type),
              (''submission'', PDict (extensions @ [(''submission_types'', submission_types)])),
              (''timing'', PDict
                 [(''due_at'', due_at), (''unlock_at'', unlock_at), (''lock_at'', lock_at)]),
              (''secrecy'', PDict
                 [(''anonymize_students'', anonymize_students),
                  (''anonymous_grading'', anonymous_grading)])]),
          (''description'', description)]))))))))))))))"

text \<open>
  The dict methods that \<^verbatim>\<open>Assignment.from_disk\<close> uses. \<^verbatim>\<open>d[k] = v\<close> keeps the position of
  an existing key and appends a new one; \<^verbatim>\<open>d.pop(k)\<close> raises \<^verbatim>\<open>KeyError\<close> on a missing key;
  \<^verbatim>\<open>d.update(other)\<close> stores the items of \<^verbatim>\<open>other\<close> in their order, where \<^verbatim>\<open>other\<close> is a
  mapping or a sequence of key and value pairs. A receiver that is no mapping raises.
\<close>

fun dict_set :: "pyval \<Rightarrow> string \<Rightarrow> pyval \<Rightarrow> error + pyval" where
  "dict_set (PDict kvs) k v = Inr (PDict (AList.update k v kvs))"
| "dict_set _ k v = Inl TypeError"

fun dict_pop :: "pyval \<Rightarrow> string \<Rightarrow> error + (pyval \<times> pyval)" where
  "dict_pop (PDict kvs) k =
     (case map_of kvs k of
        None \<Rightarrow> Inl (KeyError k)
      | Some v \<Rightarrow> Inr (v, PDict (AList.delete k kvs)))"
| "dict_pop (PList xs) k = Inl TypeError"
| "dict_pop _ k = Inl (AttributeError ''pop'')"

text \<open>
  One element of the sequence that \<^verbatim>\<open>dict.update\<close> accepts in place of a mapping: a
  sequence of two items, key and value. A list of two, a string of two characters and a
  dict of two keys are such sequences. The mappings here are keyed by strings; a key
  that is a list or a dict is unhashable, and the model raises the same \<^verbatim>\<open>TypeError\<close> for
  any other key that is no string.
\<close>

definition wrong_length :: "nat \<Rightarrow> nat \<Rightarrow> error" where
  "wrong_length i n = ValueError (''dictionary update sequence element #'' @ digits i
                         @ '' has length '' @ digits n @ ''; 2 is required'')"

fun update_element :: "nat \<Rightarrow> pyval \<Rightarrow> error + (string \<times> pyval)" where
  "update_element i (PList [PStr k, v]) = Inr (k, v)"
| "update_element i (PList [k, v]) = Inl TypeError"
| "update_element i (PList xs) = Inl (wrong_length i (length xs))"
| "update_element i (PStr [c, d]) = Inr ([c], PStr [d])"
| "update_element i (PStr s) = Inl (wrong_length i (length s))"
| "update_element i (PDict [a, b]) = Inr (fst a, PStr (fst b))"
| "update_element i (PDict kvs) = Inl (wrong_length i (length kvs))"
| "update_element i _ = Inl TypeError"

fun update_elements :: "nat \<Rightarrow> pyval list \<Rightarrow> error + (string \<times> pyval) list" where
  "update_elements i [] = Inr []"
| "update_elements i (x # xs) =
     bindE (update_element i x) (\<lambda>kv. bindE (update_elements (Suc i) xs) (\<lambda>kvs. Inr (kv # kvs)))"

definition store_items :: "(string \<times> pyval) list \<Rightarrow> (string \<times> pyval) list \<Rightarrow> (string \<times> pyval) list" where
  "store_items other kvs = fold (\<lambda>kv. AList.update (fst kv) (snd kv)) other kvs"

fun dict_update :: "pyval \<Rightarrow> pyval \<Rightarrow> error + pyval" where
  "dict_update (PDict kvs) (PDict other) = Inr (PDict (store_items other kvs))"
| "dict_update (PDict kvs) (PList xs) =
     bindE (update_elements 0 xs) (\<lambda>other. Inr (PDict (store_items other kvs)))"
| "dict_update (PDict kvs) (PStr s) =
     bindE (update_elements 0 (map (\<lambda>c. PStr [c]) s)) (\<lambda>other. Inr (PDict (store_items other kvs)))"
| "dict_update (PDict kvs) _ = Inl TypeError"
| "dict_update _ _ = Inl (AttributeError ''update'')"

text \<open>
  \<^verbatim>\<open>yaml_data['settings'].update(yaml_data['settings'].pop(section))\<close>: the method
  \<^verbatim>\<open>update\<close> is looked up on the settings before the argument is evaluated, so settings that
  are no mapping raise \<^verbatim>\<open>AttributeError\<close> for it. The settings mapping is changed in
  place, which the model writes back into \<^verbatim>\<open>yaml_data\<close>.
\<close>

fun is_dict :: "pyval \<Rightarrow> bool" where
  "is_dict (PDict kvs) = True"
| "is_dict _ = False"

definition unnest :: "string \<Rightarrow> pyval \<Rightarrow> error + pyval" where
  "unnest section yaml_data =
     bindE (py_getitem yaml_data ''settings'') (\<lambda>settings.
       if \<not> is_dict settings then Inl (AttributeError ''update'')
       else
     bindE (dict_pop settings section) (\<lambda>(sub, settings').
     bindE (dict_update settings' sub) (\<lambda>settings''.
       dict_set yaml_data ''settings'' settings'')))"

text \<open>\<^verbatim>\<open>yaml_data[key] = f(yaml_data[key])\<close>.\<close>

definition convert_field :: "(pyval \<Rightarrow> error + pyval) \<Rightarrow> string \<Rightarrow> pyval \<Rightarrow> error + pyval" where
  "convert_field f key yaml_data =
     bindE (py_getitem yaml_data key) (\<lambda>v. bindE (f v) (\<lambda>w. dict_set yaml_data key w))"

text \<open>\<^verbatim>\<open>Assignment.from_disk\<close>; the \<^verbatim>\<open>resource_id\<close> argument is not read.\<close>

definition Assignment_from_disk :: "converters \<Rightarrow> course \<Rightarrow> pyval \<Rightarrow> error + resource" where
  "Assignment_from_disk cv crs yaml_data =
     bindE (convert_field (m2h cv) ''description'' yaml_data) (\<lambda>y1.
     bindE (unnest ''timing'' y1) (\<lambda>y2.
     bindE (unnest ''secrecy'' y2) (\<lambda>y3.
     bindE (unnest ''submission'' y3) (\<lambda>y4.
     bindE (dict_pop y4 ''settings'') (\<lambda>(settings, y5).
     bindE (dict_update y5 settings) (\<lambda>y6.
     bindE (convert_field (from_friendly_date cv) ''due_at'' y6) (\<lambda>y7.
     bindE (convert_field (from_friendly_date cv) ''unlock_at'' y7) (\<lambda>y8.
     bindE (convert_field (from_friendly_date cv) ''lock_at'' y8) (\<lambda>y9.
     bindE (dict_pop y9 ''url'') (\<lambda>(url, y10).
     bindE (dict_set y10 ''html_url'' url) (\<lambda>y11.
       construct y11 crs)))))))))))"

section \<open>The outcome cache\<close>










section \<open>Backups (\<^verbatim>\<open>Course.backup_json\<close>, \<^verbatim>\<open>Course.backup_resource\<close>)\<close>

text \<open>
  The file system is the map from a path to the content of the file there. A file holds
  text, or the gzip compression of a text, or the gzip compression of the JSON
  serialisation of a value. Directories are not tracked: \<^verbatim>\<open>ensure_dir\<close> creates
  directories only and leaves every file as it is. \<^verbatim>\<open>make_datetime_filename()\<close> reads the
  clock; its result is the argument \<open>stamp\<close> of each call.
\<close>

datatype file_content = Text string | GzipText string | GzipJson pyval

type_synonym file_system = "string \<Rightarrow> file_content option"

text \<open>\<^verbatim>\<open>self.backups\<close>, set in \<^verbatim>\<open>Course.__init__\<close>.\<close>

definition backups :: "course \<Rightarrow> string" where
  "backups crs = path_join (root_directory crs) [''_backups'']"

text \<open>
  Reading a file opened in text mode translates \<^verbatim>\<open>\r\n\<close> and \<^verbatim>\<open>\r\<close> to \<^verbatim>\<open>\n\<close>; compressed
  data does not decode as text.
\<close>

fun universal_newlines :: "string \<Rightarrow> string" where
  "universal_newlines [] = []"
| "universal_newlines [c] = (if c = CHR 0x0D then [CHR 0x0A] else [c])"
| "universal_newlines (c # d # cs) =
     (if c = CHR 0x0D \<and> d = CHR 0x0A then CHR 0x0A # universal_newlines cs
      else if c = CHR 0x0D then CHR 0x0A # universal_newlines (d # cs)
      else c # universal_newlines (d # cs))"

definition read_text :: "file_system \<Rightarrow> string \<Rightarrow> error + string" where
  "read_text fs path =
     (case fs path of
        None \<Rightarrow> Inl (FileNotFoundError path)
      | Some (Text s) \<Rightarrow> Inr (universal_newlines s)
      | Some _ \<Rightarrow> Inl UnicodeDecodeError)"

definition backup_json_path :: "course \<Rightarrow> resource_id \<Rightarrow> string \<Rightarrow> string" where
  "backup_json_path crs rid stamp =
     (let resource_path = identify_filename (rid_resource_type rid) (rid_filename rid);
          backup_directory = path_join (backups crs) [resource_path];
          timestamped_filename = stamp @ ''.json'' @ ''.gz''
      in path_join backup_directory [timestamped_filename])"

definition backup_json :: "course \<Rightarrow> resource_id \<Rightarrow> pyval \<Rightarrow> string \<Rightarrow> file_system \<Rightarrow> file_system" where
  "backup_json crs rid json_data stamp fs =
     fs (backup_json_path crs rid stamp \<mapsto> GzipJson json_data)"

definition backup_resource_path :: "course \<Rightarrow> resource_id \<Rightarrow> string \<Rightarrow> string" where
  "backup_resource_path crs rid stamp =
     (let extension = extension (rid_resource_type rid);
          resource_path = identify_filename (rid_resource_type rid) (rid_filename rid);
          backup_directory = path_join (backups crs) [resource_path];
          timestamped_filename = stamp @ extension @ ''.gz''
      in path_join backup_directory [timestamped_filename])"

definition backup_resource :: "course \<Rightarrow> resource_id \<Rightarrow> pyval \<Rightarrow> string \<Rightarrow> file_system \<Rightarrow> error + (bool \<times> file_system)" where
  "backup_resource crs rid new_version stamp fs =
     (let backup_path = backup_resource_path crs rid stamp in
      if fs (rid_path rid) = None then Inr (False, fs)
      else bindE (read_text fs (rid_path rid))
        (\<lambda>contents.
           if PStr contents = new_version then Inr (False, fs)
           else Inr (True, fs (backup_path \<mapsto> GzipText contents))))"

text \<open>
  Two calls in succession with the same new content: the second runs on the file system
  that the first left. The result is what the two calls returned and the final files.
\<close>

definition backup_resource_twice :: "course \<Rightarrow> resource_id \<Rightarrow> pyval \<Rightarrow> string \<Rightarrow> string \<Rightarrow> file_system \<Rightarrow> error + (bool \<times> bool \<times> file_system)" where
  "backup_resource_twice crs rid new_version stamp1 stamp2 fs =
     bindE (backup_resource crs rid new_version stamp1 fs)
       (\<lambda>first. bindE (backup_resource crs rid new_version stamp2 (snd first))
          (\<lambda>second. Inr (fst first, fst second, snd second)))"

section \<open>Example data\<close>

text \<open>
  A small course for the concrete evaluations below. \<open>example_Quiz\<close> stands for the
  \<^verbatim>\<open>Quiz\<close> class of \<^verbatim>\<open>waltz.quizzes\<close>; the remote of \<open>example_get\<close> holds one assignment and
  two pages and nothing else; the disk of \<open>example_glob\<close> holds two files named
  \<^verbatim>\<open>Syllabus.md\<close> under \<^verbatim>\<open>pages\<close> and one outcome bank.
\<close>

definition example_Quiz :: resource_type where
  "example_Quiz = \<lparr> category_names = [''quiz'', ''quizzes''], canvas_name = ''quizzes'',
            canonical_category = ''quizzes'', canvas_title_field = ''title'',
            canvas_id_field = ''id'', extension = ''.yaml'' \<rparr>"

definition example_course :: course where
  "example_course = \<lparr> root_directory = ''course'', course_name = ''cs101'' \<rparr>"

definition example_homework :: pyval where
  "example_homework = PDict [(''id'', PInt 17), (''name'', PStr ''Homework 1'')]"

definition example_pages :: "pyval list" where
  "example_pages = [PDict [(''url'', PStr ''syllabus''), (''title'', PStr ''Syllabus'')],
                    PDict [(''url'', PStr ''syllabus-2''), (''title'', PStr ''Syllabus (old)'')]]"

definition example_get :: "string \<Rightarrow> (string \<times> pyval) list \<Rightarrow> string \<Rightarrow> bool \<Rightarrow> error + pyval" where
  "example_get endpoint params crs everything =
     (if endpoint = ''assignments'' then Inr (PList [example_homework])
      else if endpoint = ''pages'' then Inr (PList example_pages)
      else Inr (PList []))"

definition example_safe_filename :: "pyval \<Rightarrow> error + string" where
  "example_safe_filename v = (case v of PStr s \<Rightarrow> Inr s | _ \<Rightarrow> Inl TypeError)"

definition example_glob :: "string \<Rightarrow> string list" where
  "example_glob pattern =
     (if pattern = ''course/pages/**/Syllabus.md''
      then [''course/pages/Syllabus.md'', ''course/pages/week1/Syllabus.md'']
      else if pattern = ''course/outcomes/**/*.yaml'' then [''course/outcomes/core/bank.yaml'']
      else [])"

definition example_load_yaml :: "string \<Rightarrow> error + pyval" where
  "example_load_yaml p = Inr (PDict [(''Recursion'', PStr ''Write recursive functions'')])"

definition example_indent4 :: "string \<Rightarrow> string" where
  "example_indent4 s = ''    '' @ concat (map (\<lambda>c. if c = CHR 0x0A then CHR 0x0A # ''    '' else [c]) s)"

definition example_externals :: externals where
  "example_externals = \<lparr> canvas_get = example_get, indent4 = example_indent4,
       make_safe_filename = example_safe_filename, glob = example_glob,
       load_yaml = example_load_yaml \<rparr>"

definition example_page_id :: resource_id where
  "example_page_id =
     \<lparr> rid_course = example_course, rid_raw = ''page/:welcome'', rid_category = ''page'',
       rid_command = '':'', rid_name = Some ''welcome'', rid_resource_type = Page,
       rid_canvas_data = PDict [(''url'', PStr ''welcome''), (''title'', PStr ''Welcome'')],
       rid_canvas_title = PStr ''Welcome'', rid_canvas_id = PStr ''welcome'',
       rid_filename = ''Welcome.md'', rid_is_new = False,
       rid_path = ''course/pages/Welcome.md'' \<rparr>"

definition example_files :: file_system where
  "example_files = Map.empty (''course/pages/Welcome.md'' \<mapsto> Text ''old text'')"

text \<open>
  An assignment as the remote returns it, converters that prefix a date with \<^verbatim>\<open>at\<close> and
  strip it again (the empty string standing for no date), the mapping that
  \<^verbatim>\<open>Assignment.to_disk\<close> makes of the assignment and the object that \<^verbatim>\<open>Assignment.from_disk\<close>
  makes of that mapping.
\<close>

definition example_to_friendly :: "pyval \<Rightarrow> error + pyval" where
  "example_to_friendly v = (case v of PStr s \<Rightarrow> Inr (PStr (''at '' @ s)) | PNone \<Rightarrow> Inr (PStr '''') | _ \<Rightarrow> Inl TypeError)"

definition example_from_friendly :: "pyval \<Rightarrow> error + pyval" where
  "example_from_friendly v = (case v of PStr s \<Rightarrow> Inr (if s = [] then PNone else PStr (drop 3 s)) | _ \<Rightarrow> Inl TypeError)"

definition example_converters :: converters where
  "example_converters = \<lparr> h2m = Inr, m2h = Inr, to_friendly_date = example_to_friendly,
                           from_friendly_date = example_from_friendly \<rparr>"

definition example_assignment :: resource where
  "example_assignment =
     [(''name'', PStr ''Homework 1''),
      (''html_url'', PStr ''https://canvas.example/courses/1/assignments/17''),
      (''published'', PBool True),
      (''points_possible'', PInt 10),
      (''grading_type'', PStr ''points''),
      (''allowed_extensions'', PList [PStr ''py'']),
      (''submission_types'', PList [PStr ''online_upload'']),
      (''due_at'', PStr ''2019-09-01T04:00:00Z''),
      (''unlock_at'', PNone),
      (''lock_at'', PNone),
      (''anonymize_students'', PBool False),
      (''anonymous_grading'', PBool False),
      (''description'', PStr ''<p>Sum a list.</p>''),
      (''id'', PInt 17)]"

definition example_on_disk :: pyval where
  "example_on_disk =
     PDict
       [(''name'', PStr ''Homework 1''),
        (''url'', PStr ''https://canvas.example/courses/1/assignments/17''),
        (''settings'', PDict
           [(''published'', PBool True),
            (''points_possible'', PInt 10),
            (''grading_type'', PStr ''points''),
            (''submission'', PDict
               [(''extensions'', PList [PStr ''py'']),
                (''submission_types'', PList [PStr ''online_upload''])]),
            (''timing'', PDict
               [(''due_at'', PStr ''at 2019-09-01T04:00:00Z''),
                (''unlock_at'', PStr ''''),
                (''lock_at'', PStr '''')]),
            (''secrecy'', PDict
               [(''anonymize_students'', PBool False),
                (''anonymous_grading'', PBool False)])]),
        (''description'', PStr ''<p>Sum a list.</p>'')]"

definition example_reloaded :: resource where
  "example_reloaded =
     [(''name'', PStr ''Homework 1''),
      (''description'', PStr ''<p>Sum a list.</p>''),
      (''published'', PBool True),
      (''points_possible'', PInt 10),
      (''grading_type'', PStr ''points''),
      (''due_at'', PStr ''2019-09-01T04:00:00Z''),
      (''unlock_at'', PNone),
      (''lock_at'', PNone),
      (''anonymize_students'', PBool False),
      (''anonymous_grading'', PBool False),
      (''extensions'', PList [PStr ''py'']),
      (''submission_types'', PList [PStr ''online_upload'']),
      (''html_url'', PStr ''https://canvas.example/courses/1/assignments/17''),
      (''course'', PCourse example_course),
      (''unmatched_parameters'', PDict [])]"

section \<open>The registry and the wildcard\<close>

lemma bindE_Inr_iff: "bindE m f = Inr y \<longleftrightarrow> (\<exists>x. m = Inr x \<and> f x = Inr y)"
  by (cases m) (simp_all add: bindE_def)

lemma map_of_fold_update:
  "map_of (fold (\<lambda>c. AList.update c v) cs d) k = (if k \<in> set cs then Some v else map_of d k)"
  by (induction cs arbitrary: d) (auto simp: update_conv')

lemma map_of_register:
  "map_of (register rt d) k = (if k \<in> set (category_names rt) then Some rt else map_of d k)"
  by (simp add: register_def map_of_fold_update)

lemma registry_lookup:
  "map_of (RESOURCE_CATEGORIES Quiz) k =
     (if k \<in> set (category_names Assignment) then Some Assignment
      else if k \<in> set (category_names Page) then Some Page
      else if k \<in> set (category_names Quiz) then Some Quiz
      else None)"
  by (simp add: RESOURCE_CATEGORIES_def ALL_RESOURCES_def map_of_register)

lemma parse_page_wildcard:
  "parse_type Quiz ''page/*'' = Inr (''page'', ''*'', None, Page)"
  by (simp add: parse_type_def registry_lookup Page_def Assignment_def lower_def lower_char_def Let_def)

text \<open>
  Claim C5 says that constructing an identifier from \<^verbatim>\<open>"<category>/*"\<close> marks it as a
  wildcard and succeeds without an unknown-command error. \<^verbatim>\<open>_parse_type\<close> does return the
  command \<^verbatim>\<open>"*"\<close> with the name \<^verbatim>\<open>None\<close>, but \<^verbatim>\<open>__init__\<close> then calls \<^verbatim>\<open>_get_canvas_data\<close>,
  which has no branch for \<^verbatim>\<open>"*"\<close>: for every Quiz descriptor, every remote, every disk and
  every course, constructing \<^verbatim>\<open>page/*\<close> raises \<^verbatim>\<open>WaltzException("Unknown command: '*'")\<close>.
\<close>

theorem wildcard_construction_raises:
  "ResourceID Quiz ext crs ''page/*'' = Inl (WaltzException (''Unknown command: '' @ [CHR 0x27, CHR ''*'', CHR 0x27]))"
  by (simp add: ResourceID_def parse_page_wildcard bindE_def get_canvas_data_def
        py_repr_def repr_char_def Let_def)

text \<open>
  Claim C6 says that the registry holds all four categories page, assignment, quiz and
  outcome. \<^verbatim>\<open>ALL_RESOURCES\<close> lists \<^verbatim>\<open>Quiz\<close>, \<^verbatim>\<open>Page\<close> and \<^verbatim>\<open>Assignment\<close> only, so the names that
  \<^verbatim>\<open>Outcome.category_names\<close> declares are never registered: parsing an \<^verbatim>\<open>outcome/...\<close>
  identifier raises the category-not-found \<^verbatim>\<open>WaltzException\<close>, unless the Quiz class
  itself claims the name, and then the identifier resolves to Quiz, not to Outcome.
\<close>

theorem outcome_category_not_registered:
  "parse_type Quiz ''outcome/?Recursion'' =
     (if ''outcome'' \<in> set (category_names Quiz)
      then Inr (''outcome'', ''?'', Some ''Recursion'', Quiz)
      else Inl (WaltzException (''Category outcome not found (full Resource ID: '' @ [CHR 0x27] @ ''outcome/?Recursion'' @ [CHR 0x27] @ '')'')))"
  by (simp add: parse_type_def registry_lookup Page_def Assignment_def lower_def lower_char_def
        py_repr_def repr_char_def Let_def)

section \<open>Resolving against the remote\<close>

lemma as_strs_strings: "as_strs (map PStr ss) = Inr ss"
  by (induction ss) (simp_all add: bindE_def)

lemma join_vals_strings: "join_vals sep (map PStr ss) = Inr (join sep ss)"
  by (simp add: join_vals_def as_strs_strings bindE_def)

text \<open>
  A remote answer is written as the list \<open>found\<close> of its matches, each a pair of the title
  and the fields of the JSON object; \<open>titled\<close> says that the object holds that title, as a
  string, under the title field of the resource type.
\<close>

lemma identify_titles_found:
  "list_all (\<lambda>m. map_of (snd m) f = Some (PStr (fst m))) found \<Longrightarrow>
     identify_titles f (map (\<lambda>m. PDict (snd m)) found) = Inr (map (\<lambda>m. PStr (fst m)) found)"
  by (induction found) (simp_all add: identify_title_def bindE_def)

lemma names_found:
  "list_all (\<lambda>m. map_of (snd m) f = Some (PStr (fst m))) found \<Longrightarrow>
     get_names_from_json f (PList (map (\<lambda>m. PDict (snd m)) found)) = Inr (map (\<lambda>m. PStr (fst m)) found)"
  by (simp add: get_names_from_json_def identify_titles_found bindE_def)

lemma join_vals_found:
  "join_vals sep (map (\<lambda>m. PStr (fst m)) found) = Inr (join sep (map fst found))"
  using join_vals_strings [of sep "map fst found"] by (simp add: comp_def)

text \<open>
  Claim C1: an identifier whose command is search (\<^verbatim>\<open>?\<close>) queries the remote by name and
  needs exactly one match. When the remote answers the search for the name with the
  objects \<open>found\<close>, each holding its title as a string: no match raises
  \<^verbatim>\<open>WaltzNoResourceFound\<close> with the message "No <remote collection> resource found for: <raw
  identifier>"; more than one match raises \<^verbatim>\<open>WaltzNoResourceFound\<close> with the "Ambiguous ..."
  message that lists the title of every match, in the order of the answer; exactly one
  match is what \<^verbatim>\<open>_find_canvas_resource\<close> returns and so becomes the identifier's remote
  data (\<^verbatim>\<open>canvas_data\<close>), with the title of the match as the canonical title and its id
  field as the remote id (a match without the id field raises \<^verbatim>\<open>KeyError\<close> when the id is
  read).
\<close>

theorem search_requires_exactly_one_match:
  assumes response: "canvas_get ext (canvas_name rt) [(''search_term'', name_val name)]
                       (course_name crs) True = Inr (PList (map (\<lambda>m. PDict (snd m)) found))"
      and titled: "list_all (\<lambda>m. map_of (snd m) (canvas_title_field rt) = Some (PStr (fst m))) found"
  shows "find_canvas_resource ext crs rt raw name =
           (case found of
              [] \<Rightarrow> Inl (WaltzNoResourceFound (''No '' @ canvas_name rt @ '' resource found for: '' @ raw))
            | [m] \<Rightarrow> Inr (PDict (snd m))
            | _ \<Rightarrow> Inl (WaltzNoResourceFound (''Ambiguous '' @ canvas_name rt @ '' resource ID: '' @ raw
                        @ [CHR 0x0A] @ ''Matches:'' @ [CHR 0x0A]
                        @ indent4 ext (join [CHR 0x0A] (map fst found)))))
       \<and> get_canvas_data ext crs rt raw ''?'' name =
           (case found of
              [] \<Rightarrow> Inl (WaltzNoResourceFound (''No '' @ canvas_name rt @ '' resource found for: '' @ raw))
            | [m] \<Rightarrow> (case map_of (snd m) (canvas_id_field rt) of
                        None \<Rightarrow> Inl (KeyError (canvas_id_field rt))
                      | Some ident \<Rightarrow> Inr (PDict (snd m), PStr (fst m), ident))
            | _ \<Rightarrow> Inl (WaltzNoResourceFound (''Ambiguous '' @ canvas_name rt @ '' resource ID: '' @ raw
                        @ [CHR 0x0A] @ ''Matches:'' @ [CHR 0x0A]
                        @ indent4 ext (join [CHR 0x0A] (map fst found)))))"
proof -
  have no_errors: "PStr ''errors'' \<notin> set (map (\<lambda>m. PDict (snd m)) found)"
    by auto
  with response have answer:
    "find_resource_on_canvas ext rt crs name = Inr (PList (map (\<lambda>m. PDict (snd m)) found))"
    by (simp add: find_resource_on_canvas_def bindE_def)
  have several: "find_canvas_resource ext crs rt raw name =
           Inl (WaltzNoResourceFound (''Ambiguous '' @ canvas_name rt @ '' resource ID: '' @ raw
                        @ [CHR 0x0A] @ ''Matches:'' @ [CHR 0x0A]
                        @ indent4 ext (join [CHR 0x0A] (map fst found))))"
    if "1 < length found"
  proof -
    from that have "found \<noteq> []" by auto
    with that show ?thesis
      by (simp add: find_canvas_resource_def answer bindE_def names_found [OF titled] join_vals_found)
  qed
  have search: "find_canvas_resource ext crs rt raw name =
           (case found of
              [] \<Rightarrow> Inl (WaltzNoResourceFound (''No '' @ canvas_name rt @ '' resource found for: '' @ raw))
            | [m] \<Rightarrow> Inr (PDict (snd m))
            | _ \<Rightarrow> Inl (WaltzNoResourceFound (''Ambiguous '' @ canvas_name rt @ '' resource ID: '' @ raw
                        @ [CHR 0x0A] @ ''Matches:'' @ [CHR 0x0A]
                        @ indent4 ext (join [CHR 0x0A] (map fst found)))))"
  proof (cases found)
    case Nil
    with answer show ?thesis
      by (simp add: find_canvas_resource_def bindE_def)
  next
    case (Cons m rest)
    show ?thesis
    proof (cases rest)
      case Nil
      with Cons answer show ?thesis
        by (simp add: find_canvas_resource_def bindE_def)
    next
      case (Cons m' rest')
      with \<open>found = m # rest\<close> have "1 < length found" by simp
      from several [OF this] Cons \<open>found = m # rest\<close> show ?thesis by simp
    qed
  qed
  have resolve: "get_canvas_data ext crs rt raw ''?'' name =
      bindE (find_canvas_resource ext crs rt raw name)
        (\<lambda>canvas_data. bindE (parse_canvas_data rt name canvas_data)
           (\<lambda>(title, ident). Inr (canvas_data, title, ident)))"
    by (simp add: get_canvas_data_def)
  have "get_canvas_data ext crs rt raw ''?'' name =
           (case found of
              [] \<Rightarrow> Inl (WaltzNoResourceFound (''No '' @ canvas_name rt @ '' resource found for: '' @ raw))
            | [m] \<Rightarrow> (case map_of (snd m) (canvas_id_field rt) of
                        None \<Rightarrow> Inl (KeyError (canvas_id_field rt))
                      | Some ident \<Rightarrow> Inr (PDict (snd m), PStr (fst m), ident))
            | _ \<Rightarrow> Inl (WaltzNoResourceFound (''Ambiguous '' @ canvas_name rt @ '' resource ID: '' @ raw
                        @ [CHR 0x0A] @ ''Matches:'' @ [CHR 0x0A]
                        @ indent4 ext (join [CHR 0x0A] (map fst found)))))"
  proof (cases found)
    case Nil
    then show ?thesis
      unfolding resolve search by (simp add: bindE_def)
  next
    case (Cons m rest)
    show ?thesis
    proof (cases rest)
      case Nil
      with Cons titled show ?thesis
        unfolding resolve search
        by (simp add: bindE_def parse_canvas_data_def identify_title_def identify_id_def
            split: option.splits)
    next
      case (Cons m' rest')
      with \<open>found = m # rest\<close> show ?thesis
        unfolding resolve search by (simp add: bindE_def)
    qed
  qed
  with search show ?thesis by simp
qed

text \<open>
  The theorem at the search \<^verbatim>\<open>page/?Syllabus\<close>, which the example remote answers with two
  pages, and at the search \<^verbatim>\<open>assignment/?Homework 1\<close>, which it answers with one assignment.
\<close>

theorem search_requires_exactly_one_match_witness:
  "get_canvas_data example_externals example_course Page ''page/?Syllabus'' ''?'' (Some ''Syllabus'')
     = Inl (WaltzNoResourceFound (''Ambiguous pages resource ID: page/?Syllabus''
          @ [CHR 0x0A] @ ''Matches:'' @ [CHR 0x0A] @ ''    Syllabus'' @ [CHR 0x0A] @ ''    Syllabus (old)''))
   \<and> get_canvas_data example_externals example_course Assignment ''assignment/?Homework 1'' ''?''
       (Some ''Homework 1'')
     = Inr (example_homework, PStr ''Homework 1'', PInt 17)"
proof -
  have pages: "canvas_get example_externals (canvas_name Page) [(''search_term'', name_val (Some ''Syllabus''))]
                 (course_name example_course) True
               = Inr (PList (map (\<lambda>m. PDict (snd m))
                   [(''Syllabus'', [(''url'', PStr ''syllabus''), (''title'', PStr ''Syllabus'')]),
                    (''Syllabus (old)'', [(''url'', PStr ''syllabus-2''), (''title'', PStr ''Syllabus (old)'')])]))"
    by code_simp
  have page_titles: "list_all (\<lambda>m. map_of (snd m) (canvas_title_field Page) = Some (PStr (fst m)))
                   [(''Syllabus'', [(''url'', PStr ''syllabus''), (''title'', PStr ''Syllabus'')]),
                    (''Syllabus (old)'', [(''url'', PStr ''syllabus-2''), (''title'', PStr ''Syllabus (old)'')])]"
    by (simp add: Page_def)
  have homework: "canvas_get example_externals (canvas_name Assignment)
                    [(''search_term'', name_val (Some ''Homework 1''))] (course_name example_course) True
               = Inr (PList (map (\<lambda>m. PDict (snd m))
                   [(''Homework 1'', [(''id'', PInt 17), (''name'', PStr ''Homework 1'')])]))"
    by code_simp
  have homework_title: "list_all (\<lambda>m. map_of (snd m) (canvas_title_field Assignment) = Some (PStr (fst m)))
                   [(''Homework 1'', [(''id'', PInt 17), (''name'', PStr ''Homework 1'')])]"
    by (simp add: Assignment_def)
  show ?thesis
    using search_requires_exactly_one_match [OF pages page_titles, of "''page/?Syllabus''"]
          search_requires_exactly_one_match [OF homework homework_title, of "''assignment/?Homework 1''"]
    by (simp add: Page_def Assignment_def example_externals_def example_indent4_def example_homework_def)
qed

text \<open>
  Claim C2 says that a create (\<^verbatim>\<open>+\<close>) identifier with one or more existing matches fails
  with the already-exists error that lists the matching titles. \<^verbatim>\<open>_new_canvas_resource\<close>
  reads the titles through \<^verbatim>\<open>Resource.get_names_from_json\<close>, the base class, whose title
  field is \<^verbatim>\<open>'title'\<close>; an assignment carries its title under \<^verbatim>\<open>'name'\<close>. Creating
  \<^verbatim>\<open>assignment/+Homework 1\<close> while the remote holds that assignment raises
  \<^verbatim>\<open>KeyError('title')\<close> instead of the already-exists \<^verbatim>\<open>WaltzException\<close>.
\<close>

theorem create_assignment_match_raises_KeyError:
  "ResourceID example_Quiz example_externals example_course ''assignment/+Homework 1''
     = Inl (KeyError ''title'')"
  by code_simp

section \<open>Resolving against the disk\<close>

text \<open>
  Claim C4 says that more than one file of the wanted name under the category folder
  raises the duplicate-on-disk error that lists the offending paths. With the two
  \<^verbatim>\<open>Syllabus.md\<close> files of the example disk, \<^verbatim>\<open>find_resource_on_disk\<close> raises
  \<^verbatim>\<open>NameError\<close>: the message of the intended \<^verbatim>\<open>ValueError\<close> is built from \<^verbatim>\<open>self\<close>, which a
  class method does not have.
\<close>

theorem duplicate_on_disk_raises_NameError:
  "find_resource_on_disk example_externals Page ''course'' ''Syllabus.md''
     = Inl (NameError ''name 'self' is not defined'')"
  by code_simp

section \<open>The constructor of a resource\<close>

lemma setattr_plain: "plain_name key \<Longrightarrow> setattr self key v = Inr (AList.update key v self)"
  by (simp add: setattr_def store_attr_def plain_name_def)

lemma init_loop_plain:
  "list_all plain_name (map fst items) \<Longrightarrow>
     init_loop items self rest =
       Inr (store_items items self, filter (\<lambda>p. fst p \<notin> set (map fst items)) rest)"
proof (induction items arbitrary: self rest)
  case Nil
  then show ?case by (simp add: store_items_def)
next
  case (Cons item items)
  obtain key v where item: "item = (key, v)" by (cases item)
  from Cons.prems item have plain: "plain_name key" and others: "list_all plain_name (map fst items)"
    by simp_all
  have "init_loop (item # items) self rest =
          init_loop items (AList.update key v self) (AList.delete key rest)"
    by (simp add: item setattr_plain [OF plain] bindE_def)
  also have "\<dots> = Inr (store_items items (AList.update key v self),
                        filter (\<lambda>p. fst p \<notin> set (map fst items)) (AList.delete key rest))"
    by (rule Cons.IH [OF others])
  also have "filter (\<lambda>p. fst p \<notin> set (map fst items)) (AList.delete key rest)
               = filter (\<lambda>p. fst p \<notin> set (map fst (item # items))) rest"
    by (auto simp: item AList.delete_eq intro: filter_cong)
  finally show ?case by (simp add: item store_items_def)
qed

lemma map_of_store_items:
  "distinct (map fst items) \<Longrightarrow>
     map_of (store_items items self) k =
       (case map_of items k of Some v \<Rightarrow> Some v | None \<Rightarrow> map_of self k)"
proof (induction items arbitrary: self)
  case Nil
  then show ?case by (simp add: store_items_def)
next
  case (Cons item items)
  obtain a b where item: "item = (a, b)" by (cases item)
  from Cons.prems item have fresh: "map_of items a = None" and rest_distinct: "distinct (map fst items)"
    by (simp_all add: map_of_eq_None_iff)
  have "map_of (store_items (item # items) self) k = map_of (store_items items (AList.update a b self)) k"
    by (simp add: item store_items_def)
  also have "\<dots> = (case map_of items k of Some v \<Rightarrow> Some v | None \<Rightarrow> map_of (AList.update a b self) k)"
    by (rule Cons.IH [OF rest_distinct])
  also have "\<dots> = (case map_of (item # items) k of Some v \<Rightarrow> Some v | None \<Rightarrow> map_of self k)"
    using fresh by (cases "k = a") (simp_all add: item update_conv' split: option.splits)
  finally show ?case .
qed

lemma Resource_init_plain:
  assumes "distinct (map fst kwargs)" and "list_all plain_name (map fst kwargs)"
  shows "\<exists>self. Resource_init kwargs = Inr self
           \<and> map_of self = (map_of kwargs) (''unmatched_parameters'' \<mapsto> PDict [])"
proof -
  from assms(2) have no_self: "''self'' \<notin> set (map fst kwargs)"
    by (auto simp: list_all_iff plain_name_def)
  have bag: "filter (\<lambda>p. fst p \<notin> set (map fst kwargs)) kwargs = []"
    by (simp add: filter_empty_conv)
  have built: "Resource_init kwargs =
                 Inr (AList.update ''unmatched_parameters'' (PDict []) (store_items kwargs []))"
    using no_self by (simp add: Resource_init_def init_loop_plain [OF assms(2)] bindE_def bag store_attr_def)
  have "map_of (AList.update ''unmatched_parameters'' (PDict []) (store_items kwargs [])) k
          = ((map_of kwargs) (''unmatched_parameters'' \<mapsto> PDict [])) k" for k
    by (simp add: update_conv' map_of_store_items [OF assms(1)] split: option.splits)
  then have "map_of (AList.update ''unmatched_parameters'' (PDict []) (store_items kwargs []))
               = (map_of kwargs) (''unmatched_parameters'' \<mapsto> PDict [])"
    by (rule ext)
  with built show ?thesis by simp
qed

text \<open>
  What the constructor does with the other names, and the constructor of \<^verbatim>\<open>HtmlContent\<close>,
  which keeps no bag.
\<close>

lemma Resource_init_self: "''self'' \<in> set (map fst kwargs) \<Longrightarrow> Resource_init kwargs = Inl TypeError"
  by (simp add: Resource_init_def)

lemma Resource_init_descriptors:
  "Resource_init [(''__class__'', PInt 1)] = Inl TypeError"
  "Resource_init [(''__weakref__'', PInt 1)] = Inl (AttributeError ''__weakref__'')"
  "Resource_init [(''a'', PInt 1), (''__dict__'', PInt 5)] = Inl TypeError"
  "Resource_init [(''a'', PInt 1), (''__dict__'', PDict [(''b'', PInt 2)]), (''c'', PInt 3)]
     = Inr [(''b'', PInt 2), (''c'', PInt 3), (''unmatched_parameters'', PDict [])]"
  by code_simp+

lemma HtmlContent_init_no_bag:
  "HtmlContent_init kwargs = Inr self \<Longrightarrow> map_of self ''unmatched_parameters'' = None"
  by (auto simp: HtmlContent_init_def store_attr_def update_conv' split: if_splits option.splits)

text \<open>
  Claim C9, amended: for every object that \<^verbatim>\<open>Resource.__init__\<close> constructs from keyword
  data (the constructor that Page, Outcome and Assignment inherit) whose field names are
  none of \<^verbatim>\<open>self\<close>, \<^verbatim>\<open>__class__\<close>, \<^verbatim>\<open>__weakref__\<close> and \<^verbatim>\<open>__dict__\<close>, the construction
  succeeds, every constructor field is set as an attribute under its own name, and the
  catch-all bag \<^verbatim>\<open>unmatched_parameters\<close> is the empty mapping: the attributes of the object
  are the keyword data with \<^verbatim>\<open>unmatched_parameters\<close> bound to the empty bag (which also
  replaces a field of that name).
\<close>

theorem constructor_sets_every_field_bag_empty:
  assumes "distinct (map fst kwargs)" and "list_all plain_name (map fst kwargs)"
  shows "\<exists>self. Resource_init kwargs = Inr self
           \<and> map_of self = (map_of kwargs) (''unmatched_parameters'' \<mapsto> PDict [])"
  using assms by (rule Resource_init_plain)

text \<open>The theorem at a constructor call with the two fields \<^verbatim>\<open>title\<close> and \<^verbatim>\<open>colour\<close>.\<close>

theorem constructor_sets_every_field_bag_empty_witness:
  "distinct (map fst [(''title'', PStr ''Welcome''), (''colour'', PInt 3)])
   \<and> list_all plain_name (map fst [(''title'', PStr ''Welcome''), (''colour'', PInt 3)])
   \<and> (\<exists>self. Resource_init [(''title'', PStr ''Welcome''), (''colour'', PInt 3)] = Inr self
        \<and> map_of self ''colour'' = Some (PInt 3)
        \<and> map_of self ''unmatched_parameters'' = Some (PDict []))"
proof -
  have d: "distinct (map fst [(''title'', PStr ''Welcome''), (''colour'', PInt 3)])"
    by simp
  have n: "list_all plain_name (map fst [(''title'', PStr ''Welcome''), (''colour'', PInt 3)])"
    by (simp add: plain_name_def)
  from constructor_sets_every_field_bag_empty [OF d n] obtain self
    where "Resource_init [(''title'', PStr ''Welcome''), (''colour'', PInt 3)] = Inr self"
      and "map_of self = (map_of [(''title'', PStr ''Welcome''), (''colour'', PInt 3)])
                           (''unmatched_parameters'' \<mapsto> PDict [])"
    by blast
  then have "Resource_init [(''title'', PStr ''Welcome''), (''colour'', PInt 3)] = Inr self
        \<and> map_of self ''colour'' = Some (PInt 3)
        \<and> map_of self ''unmatched_parameters'' = Some (PDict [])"
    by simp
  with d n show ?thesis by blast
qed

text \<open>
  Claim C9 as stated fails: the field \<^verbatim>\<open>colour\<close>, which no code of the module reads, is
  not retained in the bag. It becomes an attribute and the bag is empty.
\<close>

theorem unrecognised_field_not_in_bag_counterexample:
  "Resource_init [(''colour'', PInt 3)]
     = Inr [(''colour'', PInt 3), (''unmatched_parameters'', PDict [])]"
  by code_simp

section \<open>Backups\<close>

text \<open>
  Claim C8, amended: \<^verbatim>\<open>backup_json\<close> always writes the gzip-compressed, timestamped backup
  of the resource's JSON; it compares the new content with no file, so whatever the
  disk holds, the backup path holds the compressed JSON afterwards.
\<close>

theorem backup_json_writes_unconditionally:
  "backup_json crs rid json_data stamp fs (backup_json_path crs rid stamp) = Some (GzipJson json_data)"
  by (simp add: backup_json_def)

text \<open>
  Claim C8 as stated fails: a second \<^verbatim>\<open>backup_json\<close> of the same JSON, one day after the
  first, writes a second backup file although the content is unchanged.
\<close>

theorem backup_json_unchanged_content_counterexample:
  "backup_json example_course example_page_id (PDict [(''title'', PStr ''Welcome'')]) ''2020-01-01'' Map.empty
     ''course/_backups/pages/Welcome.md/2020-01-02.json.gz'' = None
   \<and> backup_json example_course example_page_id (PDict [(''title'', PStr ''Welcome'')]) ''2020-01-02''
       (backup_json example_course example_page_id (PDict [(''title'', PStr ''Welcome'')]) ''2020-01-01'' Map.empty)
     ''course/_backups/pages/Welcome.md/2020-01-02.json.gz'' = Some (GzipJson (PDict [(''title'', PStr ''Welcome'')]))
   \<and> backup_json example_course example_page_id (PDict [(''title'', PStr ''Welcome'')]) ''2020-01-01'' Map.empty
     ''course/_backups/pages/Welcome.md/2020-01-01.json.gz'' = Some (GzipJson (PDict [(''title'', PStr ''Welcome'')]))"
  by (simp add: backup_json_def backup_json_path_def identify_filename_def path_join_def
      path_join2_def backups_def example_course_def example_page_id_def Page_def Let_def)

text \<open>
  Claim C7, amended: \<^verbatim>\<open>backup_resource\<close> compares the new content with the file at the
  resource's path and never changes that file, so two calls in succession with
  identical new content have the same outcome. Both write a compressed backup of the
  file's text under their own timestamp and return true when the file exists and its
  text differs from the new content; both write nothing and return false when the file
  is missing or its text equals the new content.
\<close>

theorem backup_resource_twice_same_outcome:
  assumes "rid_path rid \<noteq> backup_resource_path crs rid stamp1"
  shows "backup_resource_twice crs rid new_version stamp1 stamp2 fs =
     (case fs (rid_path rid) of
        None \<Rightarrow> Inr (False, False, fs)
      | Some (Text s) \<Rightarrow>
          if PStr (universal_newlines s) = new_version then Inr (False, False, fs)
          else Inr (True, True,
                 fs (backup_resource_path crs rid stamp1 \<mapsto> GzipText (universal_newlines s),
                     backup_resource_path crs rid stamp2 \<mapsto> GzipText (universal_newlines s)))
      | Some (GzipText z) \<Rightarrow> Inl UnicodeDecodeError
      | Some (GzipJson j) \<Rightarrow> Inl UnicodeDecodeError)"
  using assms
  by (auto simp: backup_resource_twice_def backup_resource_def read_text_def bindE_def Let_def
      split: option.splits file_content.splits)

text \<open>
  Claim C7 as stated fails: with \<^verbatim>\<open>old text\<close> on disk and \<^verbatim>\<open>new text\<close> to back up against,
  the second call is no no-op. It returns true and writes a second backup.
\<close>

theorem backup_resource_twice_counterexample:
  "backup_resource_twice example_course example_page_id (PStr ''new text'') ''2020-01-01'' ''2020-01-02''
     example_files
   = Inr (True, True,
       example_files (''course/_backups/pages/Welcome.md/2020-01-01.md.gz'' \<mapsto> GzipText ''old text'',
                      ''course/_backups/pages/Welcome.md/2020-01-02.md.gz'' \<mapsto> GzipText ''old text''))"
  by (simp add: backup_resource_twice_def backup_resource_def read_text_def bindE_def Let_def
      backup_resource_path_def identify_filename_def path_join_def
      path_join2_def backups_def example_course_def example_page_id_def Page_def example_files_def)

text \<open>The theorem at the example page when the new content equals the text on disk.\<close>

theorem backup_resource_twice_same_outcome_witness:
  "backup_resource_twice example_course example_page_id (PStr ''old text'') ''2020-01-01'' ''2020-01-02''
     example_files = Inr (False, False, example_files)"
proof -
  have p: "rid_path example_page_id \<noteq> backup_resource_path example_course example_page_id ''2020-01-01''"
    by code_simp
  show ?thesis
    using backup_resource_twice_same_outcome [OF p, of "PStr ''old text''" "''2020-01-02''" example_files]
    by (simp add: example_files_def example_page_id_def)
qed

section \<open>The Assignment round trip\<close>

lemma getattr_Inr_iff: "getattr self k = Inr v \<longleftrightarrow> map_of self k = Some v"
  by (simp add: getattr_def split: option.splits)

lemma construct_attrs:
  assumes "construct (PDict kvs) crs = Inr self'" and "distinct (map fst kvs)"
      and "list_all plain_name (map fst kvs)"
  shows "map_of self' = (map_of (kvs @ [(''course'', PCourse crs)])) (''unmatched_parameters'' \<mapsto> PDict [])"
proof -
  from assms(1) have fresh: "''course'' \<notin> set (map fst kvs)"
    and self': "Resource_init (kvs @ [(''course'', PCourse crs)]) = Inr self'"
    by (auto simp: construct_def split: if_splits)
  from assms(2) fresh have d: "distinct (map fst (kvs @ [(''course'', PCourse crs)]))"
    by simp
  from assms(3) have n: "list_all plain_name (map fst (kvs @ [(''course'', PCourse crs)]))"
    by (simp add: plain_name_def)
  from Resource_init_plain [OF d n] self' show ?thesis by auto
qed

text \<open>
  Claim C3: for an Assignment on which both conversions are defined, \<^verbatim>\<open>from_disk\<close> applied to
  the output of \<^verbatim>\<open>to_disk\<close> reproduces the name, the url (as \<^verbatim>\<open>html_url\<close>) and the settings
  \<^verbatim>\<open>published\<close>, \<^verbatim>\<open>points_possible\<close>, \<^verbatim>\<open>grading_type\<close>, \<^verbatim>\<open>submission_types\<close>,
  \<^verbatim>\<open>anonymize_students\<close> and \<^verbatim>\<open>anonymous_grading\<close> unchanged, and each of the timestamps
  \<^verbatim>\<open>due_at\<close>, \<^verbatim>\<open>unlock_at\<close> and \<^verbatim>\<open>lock_at\<close> as the friendly-date round trip
  \<^verbatim>\<open>from_friendly_date(to_friendly_date(...))\<close> of the original.
\<close>

theorem assignment_round_trip:
  assumes to_disk: "Assignment_to_disk cv self = Inr disk"
      and from_disk: "Assignment_from_disk cv crs disk = Inr self'"
  shows "getattr self' ''name'' = getattr self ''name''
       \<and> getattr self' ''html_url'' = getattr self ''html_url''
       \<and> getattr self' ''published'' = getattr self ''published''
       \<and> getattr self' ''points_possible'' = getattr self ''points_possible''
       \<and> getattr self' ''grading_type'' = getattr self ''grading_type''
       \<and> getattr self' ''submission_types'' = getattr self ''submission_types''
       \<and> getattr self' ''anonymize_students'' = getattr self ''anonymize_students''
       \<and> getattr self' ''anonymous_grading'' = getattr self ''anonymous_grading''
       \<and> getattr self' ''due_at'' =
             bindE (bindE (getattr self ''due_at'') (to_friendly_date cv)) (from_friendly_date cv)
       \<and> getattr self' ''unlock_at'' =
             bindE (bindE (getattr self ''unlock_at'') (to_friendly_date cv)) (from_friendly_date cv)
       \<and> getattr self' ''lock_at'' =
             bindE (bindE (getattr self ''lock_at'') (to_friendly_date cv)) (from_friendly_date cv)"
  using to_disk from_disk
  unfolding Assignment_to_disk_def
  apply (clarsimp simp: bindE_Inr_iff split: if_splits)
   apply (clarsimp simp: Assignment_from_disk_def convert_field_def unnest_def bindE_Inr_iff store_items_def)
   apply (drule construct_attrs)
     apply simp
    apply (simp add: plain_name_def)
   apply (simp add: getattr_def bindE_def)
  apply (clarsimp simp: Assignment_from_disk_def convert_field_def unnest_def bindE_Inr_iff store_items_def)
  apply (drule construct_attrs)
    apply simp
   apply (simp add: plain_name_def)
  apply (simp add: getattr_def bindE_def)
  done

text \<open>The theorem at the example assignment.\<close>

theorem assignment_round_trip_witness:
  "Assignment_to_disk example_converters example_assignment = Inr example_on_disk
   \<and> Assignment_from_disk example_converters example_course example_on_disk = Inr example_reloaded
   \<and> getattr example_reloaded ''name'' = Inr (PStr ''Homework 1'')
   \<and> getattr example_reloaded ''points_possible'' = Inr (PInt 10)
   \<and> getattr example_reloaded ''due_at'' = Inr (PStr ''2019-09-01T04:00:00Z'')
   \<and> getattr example_reloaded ''lock_at'' = Inr PNone"
proof -
  have to_disk: "Assignment_to_disk example_converters example_assignment = Inr example_on_disk"
    by code_simp
  have from_disk: "Assignment_from_disk example_converters example_course example_on_disk = Inr example_reloaded"
    by code_simp
  have original: "getattr example_assignment ''name'' = Inr (PStr ''Homework 1'')"
    "getattr example_assignment ''points_possible'' = Inr (PInt 10)"
    "getattr example_assignment ''due_at'' = Inr (PStr ''2019-09-01T04:00:00Z'')"
    "getattr example_assignment ''lock_at'' = Inr PNone"
    by (simp_all add: getattr_def example_assignment_def)
  have dates: "to_friendly_date example_converters (PStr ''2019-09-01T04:00:00Z'') = Inr (PStr ''at 2019-09-01T04:00:00Z'')"
    "from_friendly_date example_converters (PStr ''at 2019-09-01T04:00:00Z'') = Inr (PStr ''2019-09-01T04:00:00Z'')"
    "to_friendly_date example_converters PNone = Inr (PStr '''')"
    "from_friendly_date example_converters (PStr '''') = Inr PNone"
    by (simp_all add: example_converters_def example_to_friendly_def example_from_friendly_def)
  show ?thesis
    using assignment_round_trip [OF to_disk from_disk] to_disk from_disk
    by (simp add: original dates bindE_def)
qed

section \<open>The outcome filter\<close>






end
